theory Spec2Isabelle
  imports Main "HOL-Library.Sublist"
begin

section \<open>Strings and characters\<close>

text \<open>
  Python strings are modelled as \<^typ>\<open>string\<close>. The character functions below
  (\<open>isspace\<close>, case mapping, \<open>repr\<close> escapes) are those of Python on the ASCII range;
  text outside ASCII is outside the scope of this development.
\<close>

abbreviation NL :: char where
  "NL \<equiv> CHR 0x0A"

abbreviation BACKSLASH :: char where
  "BACKSLASH \<equiv> CHR 0x5C"

abbreviation SQUOTE :: char where
  "SQUOTE \<equiv> CHR 0x27"

abbreviation DQUOTE :: char where
  "DQUOTE \<equiv> CHR 0x22"

definition code :: "char \<Rightarrow> nat" where
  "code c = of_char c"

definition is_lower :: "char \<Rightarrow> bool" where
  "is_lower c = (97 \<le> code c \<and> code c \<le> 122)"

definition is_upper :: "char \<Rightarrow> bool" where
  "is_upper c = (65 \<le> code c \<and> code c \<le> 90)"

definition is_alpha :: "char \<Rightarrow> bool" where
  "is_alpha c = (is_lower c \<or> is_upper c)"

definition is_digit :: "char \<Rightarrow> bool" where
  "is_digit c = (48 \<le> code c \<and> code c \<le> 57)"

definition to_upper :: "char \<Rightarrow> char" where
  "to_upper c = (if is_lower c then char_of (code c - 32) else c)"

definition to_lower :: "char \<Rightarrow> char" where
  "to_lower c = (if is_upper c then char_of (code c + 32) else c)"

text \<open>\<open>str.isspace\<close> on ASCII: TAB, LF, VT, FF, CR, the separators FS, GS, RS, US, and space.\<close>

definition py_isspace :: "char \<Rightarrow> bool" where
  "py_isspace c = ((9 \<le> code c \<and> code c \<le> 13) \<or> (28 \<le> code c \<and> code c \<le> 32))"

text \<open>\<open>s.strip()\<close>: leading and trailing whitespace removed.\<close>

definition py_strip :: "string \<Rightarrow> string" where
  "py_strip s = rev (dropWhile py_isspace (rev (dropWhile py_isspace s)))"

text \<open>
  \<open>s.title()\<close>: a cased character is upper-cased when the character before it is
  not cased (or there is none), lower-cased otherwise.
\<close>

fun title_from :: "bool \<Rightarrow> string \<Rightarrow> string" where
  "title_from prev [] = []"
| "title_from prev (c # cs) =
     (if prev then to_lower c else to_upper c) # title_from (is_alpha c) cs"

definition py_title :: "string \<Rightarrow> string" where
  "py_title s = title_from False s"

text \<open>\<open>sep.join(parts)\<close> on a list of strings.\<close>

fun join_strs :: "string \<Rightarrow> string list \<Rightarrow> string" where
  "join_strs sep [] = []"
| "join_strs sep [x] = x"
| "join_strs sep (x # y # ys) = x @ sep @ join_strs sep (y # ys)"

text \<open>Decimal rendering of integers, as \<open>str(n)\<close> gives it.\<close>

definition digit_char :: "nat \<Rightarrow> char" where
  "digit_char d = ''0123456789abcdef'' ! d"

fun str_nat :: "nat \<Rightarrow> string" where
  "str_nat n = (if n < 10 then [digit_char n] else str_nat (n div 10) @ [digit_char (n mod 10)])"

declare str_nat.simps [simp del]

definition str_int :: "int \<Rightarrow> string" where
  "str_int i = (if i < 0 then CHR ''-'' # str_nat (nat (- i)) else str_nat (nat i))"

text \<open>
  \<open>repr\<close> of a string: single quotes unless the string has a single quote and no double
  quote; the quote in use and the backslash are escaped, TAB, LF and CR get their
  letter escapes, other control characters a two-digit hexadecimal escape.
\<close>

definition repr_quote :: "string \<Rightarrow> char" where
  "repr_quote s = (if SQUOTE \<in> set s \<and> DQUOTE \<notin> set s then DQUOTE else SQUOTE)"

definition repr_char :: "char \<Rightarrow> char \<Rightarrow> string" where
  "repr_char q c =
     (if c = q \<or> c = BACKSLASH then [BACKSLASH, c]
      else if c = CHR 0x09 then [BACKSLASH, CHR ''t'']
      else if c = NL then [BACKSLASH, CHR ''n'']
      else if c = CHR 0x0D then [BACKSLASH, CHR ''r'']
      else if code c < 32 \<or> code c = 127
        then [BACKSLASH, CHR ''x'', digit_char (code c div 16), digit_char (code c mod 16)]
      else [c])"

definition repr_str :: "string \<Rightarrow> string" where
  "repr_str s = (let q = repr_quote s in q # concat (map (repr_char q) s) @ [q])"

section \<open>Python values\<close>

text \<open>
  The values an agent run can hand to the formatter: \<open>None\<close>, booleans, integers,
  strings, lists and dictionaries. A dictionary is the list of its items in insertion
  order, no key twice; its keys are strings or integers.
\<close>

datatype pykey = KStr string | KInt int

datatype pyval =
    PNone
  | PBool bool
  | PInt int
  | PStr string
  | PList "pyval list"
  | PDict "(pykey \<times> pyval) list"

text \<open>
  Exceptions, by the classes the handlers of the program tell apart. Each carries the
  text \<open>str(e)\<close> gives. \<open>BaseException\<close> stands for the exceptions that are not
  instances of \<open>Exception\<close> (\<open>KeyboardInterrupt\<close>, \<open>SystemExit\<close>).
\<close>

datatype exn =
    RequestException string
  | TypeError string
  | AttributeError string
  | Exception string
  | BaseException string

fun repr_key :: "pykey \<Rightarrow> string" where
  "repr_key (KStr s) = repr_str s"
| "repr_key (KInt i) = str_int i"

fun py_repr :: "pyval \<Rightarrow> string" where
  "py_repr PNone = ''None''"
| "py_repr (PBool b) = (if b then ''True'' else ''False'')"
| "py_repr (PInt i) = str_int i"
| "py_repr (PStr s) = repr_str s"
| "py_repr (PList vs) = ''['' @ join_strs '', '' (map py_repr vs) @ '']''"
| "py_repr (PDict d) =
     ''{'' @ join_strs '', '' (map (\<lambda>kv. repr_key (fst kv) @ '': '' @ py_repr (snd kv)) d) @ ''}''"

text \<open>\<open>str(v)\<close>: a string is itself, every other value its \<open>repr\<close>.\<close>

fun py_str :: "pyval \<Rightarrow> string" where
  "py_str (PStr s) = s"
| "py_str v = py_repr v"

fun type_name :: "pyval \<Rightarrow> string" where
  "type_name PNone = ''NoneType''"
| "type_name (PBool b) = ''bool''"
| "type_name (PInt i) = ''int''"
| "type_name (PStr s) = ''str''"
| "type_name (PList vs) = ''list''"
| "type_name (PDict d) = ''dict''"

section \<open>The response formatter\<close>

text \<open>\<open>key in response\<close> and \<open>response[key]\<close> for a string key.\<close>

definition dict_get :: "(pykey \<times> pyval) list \<Rightarrow> string \<Rightarrow> pyval option" where
  "dict_get d k = map_of d (KStr k)"

text \<open>
  \<open>sep.join(parts)\<close> on a list of values: the first item that is not a string raises
  \<open>TypeError\<close>, naming its index and type.
\<close>

fun first_non_str :: "nat \<Rightarrow> pyval list \<Rightarrow> (nat \<times> pyval) option" where
  "first_non_str i [] = None"
| "first_non_str i (PStr s # vs) = first_non_str (Suc i) vs"
| "first_non_str i (v # vs) = Some (i, v)"

fun str_items :: "pyval list \<Rightarrow> string list" where
  "str_items [] = []"
| "str_items (PStr s # vs) = s # str_items vs"
| "str_items (v # vs) = str_items vs"

definition py_join :: "string \<Rightarrow> pyval list \<Rightarrow> exn + string" where
  "py_join sep parts =
     (case first_non_str 0 parts of
        Some (i, v) \<Rightarrow>
          Inl (TypeError (''sequence item '' @ str_nat i @ '': expected str instance, ''
                           @ type_name v @ '' found''))
      | None \<Rightarrow> Inr (join_strs sep (str_items parts)))"

text \<open>\<open>key.title()\<close>: only a string has the method.\<close>

fun key_title :: "pykey \<Rightarrow> exn + string" where
  "key_title (KStr s) = Inr (py_title s)"
| "key_title (KInt i) =
     Inl (AttributeError (SQUOTE # ''int'' @ SQUOTE # '' object has no attribute ''
                          @ SQUOTE # ''title'' @ [SQUOTE]))"

text \<open>The three recognised keys, tested and appended in the order of the source.\<close>

definition section_parts :: "(pykey \<times> pyval) list \<Rightarrow> string \<Rightarrow> string \<Rightarrow> pyval list" where
  "section_parts d k header =
     (case dict_get d k of None \<Rightarrow> [] | Some v \<Rightarrow> [PStr header, v])"

definition recognised_parts :: "(pykey \<times> pyval) list \<Rightarrow> pyval list" where
  "recognised_parts d =
     section_parts d ''thoughts'' ''## Thought Process''
     @ section_parts d ''observations'' ''## Observations''
     @ section_parts d ''answer'' ''## Answer''"

text \<open>The loop over \<open>response.items()\<close> of the generic branch.\<close>

fun items_parts :: "(pykey \<times> pyval) list \<Rightarrow> exn + pyval list" where
  "items_parts [] = Inr []"
| "items_parts ((k, v) # rest) =
     (case key_title k of
        Inl e \<Rightarrow> Inl e
      | Inr t \<Rightarrow>
          (case items_parts rest of
             Inl e \<Rightarrow> Inl e
           | Inr ps \<Rightarrow> Inr (PStr (''### '' @ t) # PStr (py_str v) # ps)))"

definition format_agent_response :: "pyval \<Rightarrow> exn + string" where
  "format_agent_response response =
     (case response of
        PDict d \<Rightarrow>
          (let formatted_parts = recognised_parts d in
           if formatted_parts = [] then
             (case items_parts d of
                Inl e \<Rightarrow> Inl e
              | Inr ps \<Rightarrow> py_join [NL, NL] (PStr ''## Results'' # ps))
           else py_join [NL, NL] formatted_parts)
      | _ \<Rightarrow> Inr (py_str response))"


text \<open>
  Notions for stating what the formatter returns: a value that is a string, a mapping
  that has one of the three recognised keys, a mapping whose recognised keys all hold
  strings, and the two parts a recognised key with a string value contributes.
\<close>

fun is_str :: "pyval \<Rightarrow> bool" where
  "is_str (PStr s) = True"
| "is_str v = False"

definition has_recognised :: "(pykey \<times> pyval) list \<Rightarrow> bool" where
  "has_recognised d =
     (dict_get d ''thoughts'' \<noteq> None \<or> dict_get d ''observations'' \<noteq> None
      \<or> dict_get d ''answer'' \<noteq> None)"

definition str_or_absent :: "(pykey \<times> pyval) list \<Rightarrow> string \<Rightarrow> bool" where
  "str_or_absent d k = (case dict_get d k of None \<Rightarrow> True | Some v \<Rightarrow> is_str v)"

definition recognised_str_valued :: "(pykey \<times> pyval) list \<Rightarrow> bool" where
  "recognised_str_valued d =
     (str_or_absent d ''thoughts'' \<and> str_or_absent d ''observations''
      \<and> str_or_absent d ''answer'')"

definition section_text :: "(pykey \<times> pyval) list \<Rightarrow> string \<Rightarrow> string \<Rightarrow> string list" where
  "section_text d k header =
     (case dict_get d k of Some (PStr s) \<Rightarrow> [header, s] | _ \<Rightarrow> [])"


section \<open>The webpage fetch\<close>

text \<open>
  \<open>re.sub(r"\n{3,}", "\n\n", s)\<close>: scanning from the left, a maximal run of three or
  more newlines is replaced by two and the scan goes on after the run; any other
  character is copied.
\<close>

definition is_nl :: "char \<Rightarrow> bool" where
  "is_nl c = (c = NL)"

function re_sub_newlines :: "string \<Rightarrow> string" where
  "re_sub_newlines [] = []"
| "re_sub_newlines (c # cs) =
     (if 3 \<le> length (takeWhile is_nl (c # cs))
      then NL # NL # re_sub_newlines (dropWhile is_nl cs)
      else c # re_sub_newlines cs)"
  by pat_completeness auto
termination
  by (relation "measure length") (auto simp: less_Suc_eq_le length_dropWhile_le)

text \<open>
  The HTTP response, with the fields the program and \<open>raise_for_status\<close> read.
\<close>

record response =
  status_code :: int
  reason :: string
  url :: string
  resp_text :: string

text \<open>
  \<open>Response.raise_for_status()\<close> of the requests library: an \<open>HTTPError\<close> (a
  \<open>RequestException\<close>) for a status from 400 to 599, nothing otherwise.
\<close>

definition raise_for_status :: "response \<Rightarrow> exn + unit" where
  "raise_for_status r =
     (if 400 \<le> status_code r \<and> status_code r < 500 then
        Inl (RequestException (str_int (status_code r) @ '' Client Error: '' @ reason r
                               @ '' for url: '' @ url r))
      else if 500 \<le> status_code r \<and> status_code r < 600 then
        Inl (RequestException (str_int (status_code r) @ '' Server Error: '' @ reason r
                               @ '' for url: '' @ url r))
      else Inr ())"

text \<open>
  The body of the \<open>try\<close> block. The network and the HTML converter are outside the
  program: \<open>get\<close> stands for \<open>requests.get\<close> and \<open>markdownify\<close> for the converter, each
  returning its result or the exception it raises.
\<close>

definition fetch_markdown ::
    "(string \<Rightarrow> exn + response) \<Rightarrow> (string \<Rightarrow> exn + string) \<Rightarrow> string \<Rightarrow> exn + string" where
  "fetch_markdown get markdownify u =
     (case get u of
        Inl e \<Rightarrow> Inl e
      | Inr r \<Rightarrow>
          (case raise_for_status r of
             Inl e \<Rightarrow> Inl e
           | Inr _ \<Rightarrow>
               (case markdownify (resp_text r) of
                  Inl e \<Rightarrow> Inl e
                | Inr markdown_content \<Rightarrow>
                    Inr (re_sub_newlines (py_strip markdown_content)))))"

text \<open>
  The two handlers: \<open>except RequestException\<close> first, then \<open>except Exception\<close>. An
  exception that is not an \<open>Exception\<close> is caught by neither.
\<close>

fun handle :: "exn \<Rightarrow> exn + string" where
  "handle (RequestException m) = Inr (''Error fetching the webpage: '' @ m)"
| "handle (BaseException m) = Inl (BaseException m)"
| "handle (TypeError m) = Inr (''An unexpected error occurred: '' @ m)"
| "handle (AttributeError m) = Inr (''An unexpected error occurred: '' @ m)"
| "handle (Exception m) = Inr (''An unexpected error occurred: '' @ m)"

definition visit_webpage ::
    "(string \<Rightarrow> exn + response) \<Rightarrow> (string \<Rightarrow> exn + string) \<Rightarrow> string \<Rightarrow> exn + string" where
  "visit_webpage get markdownify u =
     (case fetch_markdown get markdownify u of
        Inr markdown_content \<Rightarrow> Inr markdown_content
      | Inl e \<Rightarrow> handle e)"

fun is_request_exception :: "exn \<Rightarrow> bool" where
  "is_request_exception (RequestException m) = True"
| "is_request_exception e = False"

fun is_exception :: "exn \<Rightarrow> bool" where
  "is_exception (BaseException m) = False"
| "is_exception e = True"

fun message :: "exn \<Rightarrow> string" where
  "message (RequestException m) = m"
| "message (TypeError m) = m"
| "message (AttributeError m) = m"
| "message (Exception m) = m"
| "message (BaseException m) = m"


section \<open>The search history\<close>

text \<open>
  One run of the script: the history list of the session state, the state of the search
  button and the text of the query box. The query is appended when the button was
  pressed, the query is not empty and the history does not hold it yet.
\<close>

definition submit :: "bool \<Rightarrow> string \<Rightarrow> string list \<Rightarrow> string list" where
  "submit search_button query search_history =
     (if search_button \<and> query \<noteq> [] then
        (if query \<notin> set search_history then search_history @ [query] else search_history)
      else search_history)"

text \<open>A session: the history starts empty and the script runs once per interaction.\<close>

fun session :: "(bool \<times> string) list \<Rightarrow> string list \<Rightarrow> string list" where
  "session [] h = h"
| "session ((b, q) # rest) h = session rest (submit b q h)"

text \<open>The sidebar shows \<open>search_history[-5:]\<close>.\<close>

definition displayed :: "string list \<Rightarrow> string list" where
  "displayed h = drop (length h - 5) h"

section \<open>Source extraction\<close>

text \<open>
  The pattern of the source scan is \<open>http[s]?://(?:A1|A2|A3|A4|A5)+\<close> with the
  alternatives \<open>[a-zA-Z]\<close>, \<open>[0-9]\<close>, \<open>[$-_@.&+]\<close> (the range from \<open>$\<close> to \<open>_\<close> and four
  more characters), \<open>[!*\\(\\),]\<close> and \<open>%[0-9a-fA-F][0-9a-fA-F]\<close>.
\<close>

definition alt1 :: "char \<Rightarrow> bool" where
  "alt1 c = is_alpha c"

definition alt2 :: "char \<Rightarrow> bool" where
  "alt2 c = is_digit c"

definition alt3 :: "char \<Rightarrow> bool" where
  "alt3 c = ((code (CHR ''$'') \<le> code c \<and> code c \<le> code (CHR ''_''))
             \<or> c = CHR ''@'' \<or> c = CHR ''.'' \<or> c = CHR ''&'' \<or> c = CHR ''+'')"

definition alt4 :: "char \<Rightarrow> bool" where
  "alt4 c = (c = CHR ''!'' \<or> c = CHR ''*'' \<or> c = BACKSLASH \<or> c = CHR ''(''
             \<or> c = CHR '')'' \<or> c = CHR '','')"

definition is_hex :: "char \<Rightarrow> bool" where
  "is_hex c = (is_digit c \<or> (97 \<le> code c \<and> code c \<le> 102) \<or> (65 \<le> code c \<and> code c \<le> 70))"

text \<open>
  One iteration of the group: the number of characters the first alternative that
  matches takes, tried in the order of the pattern.
\<close>

fun match_alt :: "string \<Rightarrow> nat option" where
  "match_alt [] = None"
| "match_alt (c # cs) =
     (if alt1 c then Some 1
      else if alt2 c then Some 1
      else if alt3 c then Some 1
      else if alt4 c then Some 1
      else (case cs of
              a # b # _ \<Rightarrow> if c = CHR ''%'' \<and> is_hex a \<and> is_hex b then Some 3 else None
            | _ \<Rightarrow> None))"

text \<open>
  The greedy repetition: iterations are taken while one matches. Nothing follows the
  group in the pattern, so the matcher never gives an iteration back.
\<close>

function match_plus :: "string \<Rightarrow> nat" where
  "match_plus s = (case match_alt s of None \<Rightarrow> 0 | Some n \<Rightarrow> n + match_plus (drop n s))"
  by pat_completeness auto
termination
proof (relation "measure length")
  show "wf (measure length)" by simp
next
  fix s :: string and n
  assume "match_alt s = Some n"
  then have "0 < n \<and> n \<le> length s"
    by (cases s) (auto split: if_splits list.splits)
  then have "length s - n < length s" by arith
  then show "(drop n s, s) \<in> measure length" by simp
qed

declare match_plus.simps [simp del]

text \<open>\<open>://\<close> and the group, at least once: the length matched, if any.\<close>

definition match_tail :: "string \<Rightarrow> nat option" where
  "match_tail s =
     (if prefix ''://'' s then
        (let n = match_plus (drop 3 s) in if 1 \<le> n then Some (3 + n) else None)
      else None)"

text \<open>
  A match at the head of the text: \<open>http\<close>, then the optional \<open>s\<close> (taken first,
  given back when the rest fails), then the tail.
\<close>

definition match_url :: "string \<Rightarrow> nat option" where
  "match_url s =
     (if prefix ''http'' s then
        (case (if prefix ''s'' (drop 4 s) then match_tail (drop 5 s) else None) of
           Some n \<Rightarrow> Some (5 + n)
         | None \<Rightarrow>
             (case match_tail (drop 4 s) of
                Some n \<Rightarrow> Some (4 + n)
              | None \<Rightarrow> None))
      else None)"

text \<open>
  \<open>re.findall\<close>: the matches from left to right, each search starting where the match
  before it ended. The pattern has no capturing group, so each item is the whole match.
\<close>

function findall :: "string \<Rightarrow> string list" where
  "findall [] = []"
| "findall (c # cs) =
     (case match_url (c # cs) of
        Some n \<Rightarrow> take n (c # cs) # findall (drop n (c # cs))
      | None \<Rightarrow> findall cs)"
  by pat_completeness auto
termination
proof (relation "measure length")
  show "wf (measure length)" by simp
next
  fix c :: char and cs :: string and n
  assume "match_url (c # cs) = Some n"
  then have "0 < n"
    by (auto simp: match_url_def split: if_splits option.splits)
  then show "(drop n (c # cs), c # cs) \<in> measure length" by simp
next
  fix c :: char and cs :: string
  show "(cs, c # cs) \<in> measure length" by simp
qed

declare findall.simps(2) [simp del]

definition sources :: "string \<Rightarrow> string list" where
  "sources formatted_result = findall formatted_result"

text \<open>
  Notions for stating what the scan returns. A URL character is one that an iteration
  of the group accepts on its own. A URL token is \<open>http://\<close> or \<open>https://\<close> followed by
  one or more URL characters. \<open>occurrences sub s\<close> counts the positions of \<open>s\<close> where
  \<open>sub\<close> starts.
\<close>

definition url_char :: "char \<Rightarrow> bool" where
  "url_char c = (alt1 c \<or> alt2 c \<or> alt3 c \<or> alt4 c)"

definition is_token :: "string \<Rightarrow> bool" where
  "is_token u =
     ((prefix ''http://'' u \<and> drop 7 u \<noteq> [] \<and> list_all url_char (drop 7 u))
      \<or> (prefix ''https://'' u \<and> drop 8 u \<noteq> [] \<and> list_all url_char (drop 8 u)))"

text \<open>A text that is empty or begins with a character that is not a URL character.\<close>

definition delimited :: "string \<Rightarrow> bool" where
  "delimited s = (case s of [] \<Rightarrow> True | c # cs \<Rightarrow> \<not> url_char c)"

fun occurrences :: "string \<Rightarrow> string \<Rightarrow> nat" where
  "occurrences sub [] = 0"
| "occurrences sub (c # cs) = (if prefix sub (c # cs) then 1 else 0) + occurrences sub cs"

section \<open>Properties of the search history\<close>

lemma submit_distinct: "distinct h \<Longrightarrow> distinct (submit b q h)"
  by (simp add: submit_def)

lemma session_distinct: "distinct h \<Longrightarrow> distinct (session events h)"
  by (induction events arbitrary: h) (auto simp: submit_distinct)

lemma submit_member: "q \<noteq> [] \<Longrightarrow> q \<in> set (submit True q h)"
  by (simp add: submit_def)

lemma count_list_distinct: "distinct xs \<Longrightarrow> x \<in> set xs \<Longrightarrow> count_list xs x = 1"
  by (induction xs) (auto simp: count_list_0_iff)

lemma submit_keeps: "x \<in> set h \<Longrightarrow> x \<in> set (submit b q h)"
  by (simp add: submit_def)

lemma session_keeps: "x \<in> set h \<Longrightarrow> x \<in> set (session events h)"
  by (induction events arbitrary: h) (auto simp: submit_keeps)

lemma session_member:
  "(True, q) \<in> set events \<Longrightarrow> q \<noteq> [] \<Longrightarrow> q \<in> set (session events h)"
  by (induction events arbitrary: h) (auto simp: session_keeps submit_member)

text \<open>
  C6. Whatever the interactions of a session were, the history holds no entry twice;
  and a non-empty query that was submitted, once or more often, is held exactly once.
  The same query submitted twice is the case of the last witness line.
\<close>

theorem history_no_duplicates:
  "distinct (session events [])
   \<and> (query \<noteq> [] \<and> (True, query) \<in> set events \<longrightarrow>
        count_list (session events []) query = 1)"
proof
  show "distinct (session events [])" by (simp add: session_distinct)
  show "query \<noteq> [] \<and> (True, query) \<in> set events \<longrightarrow>
        count_list (session events []) query = 1"
  proof
    assume q: "query \<noteq> [] \<and> (True, query) \<in> set events"
    have d: "distinct (session events [])" by (simp add: session_distinct)
    have m: "query \<in> set (session events [])" using q by (simp add: session_member)
    from d m show "count_list (session events []) query = 1" by (rule count_list_distinct)
  qed
qed

theorem history_no_duplicates_witness:
  "''cats'' \<noteq> [] \<and> (True, ''cats'') \<in> set [(True, ''dogs''), (True, ''cats''), (True, ''cats'')]
   \<and> distinct (session [(True, ''dogs''), (True, ''cats''), (True, ''cats'')] [])
   \<and> count_list (session [(True, ''dogs''), (True, ''cats''), (True, ''cats'')] []) ''cats'' = 1
   \<and> session [(True, ''dogs''), (True, ''cats''), (True, ''cats'')] [] = [''dogs'', ''cats'']"
  using history_no_duplicates [of "[(True, ''dogs''), (True, ''cats''), (True, ''cats'')]" "''cats''"]
  by (simp add: submit_def)

text \<open>
  C10. Submitting a query that the history already holds changes nothing: the list is
  the same, element by element, and so are the last five entries the sidebar shows.
\<close>

theorem resubmit_unchanged:
  "query \<in> set h \<Longrightarrow> submit b query h = h \<and> displayed (submit b query h) = displayed h"
  by (simp add: submit_def)

theorem resubmit_unchanged_witness:
  "''a'' \<in> set [''a'', ''b''] \<and> submit True ''a'' [''a'', ''b''] = [''a'', ''b'']
   \<and> displayed (submit True ''a'' [''a'', ''b'']) = [''a'', ''b'']"
  using resubmit_unchanged [of "''a''" "[''a'', ''b'']" True]
  by (simp add: displayed_def)

section \<open>Properties of the response formatter\<close>

text \<open>
  C9. The empty mapping has none of the recognised keys and no items: the result is the
  \<open>## Results\<close> header alone.
\<close>

theorem format_empty_mapping: "format_agent_response (PDict []) = Inr ''## Results''"
  by (simp add: format_agent_response_def recognised_parts_def section_parts_def
      dict_get_def py_join_def)



lemma first_non_str_strs: "first_non_str i (map PStr xs) = None"
  by (induction xs arbitrary: i) auto

lemma str_items_strs: "str_items (map PStr xs) = xs"
  by (induction xs) auto

lemma py_join_strs: "py_join sep (map PStr xs) = Inr (join_strs sep xs)"
  by (simp add: py_join_def first_non_str_strs str_items_strs)

lemma section_parts_str:
  "str_or_absent d k \<Longrightarrow> section_parts d k h = map PStr (section_text d k h)"
proof (cases "dict_get d k")
  case None
  then show ?thesis by (simp add: section_parts_def section_text_def)
next
  case (Some v)
  assume "str_or_absent d k"
  with Some have "is_str v" by (simp add: str_or_absent_def)
  then obtain s where "v = PStr s" by (cases v) auto
  with Some show ?thesis by (simp add: section_parts_def section_text_def)
qed

lemma recognised_parts_str:
  "recognised_str_valued d \<Longrightarrow>
   recognised_parts d = map PStr
     (section_text d ''thoughts'' ''## Thought Process''
      @ section_text d ''observations'' ''## Observations''
      @ section_text d ''answer'' ''## Answer'')"
  by (simp add: recognised_str_valued_def recognised_parts_def section_parts_str)

lemma section_parts_Nil_iff: "section_parts d k h = [] \<longleftrightarrow> dict_get d k = None"
  by (simp add: section_parts_def split: option.split)

lemma recognised_parts_Nil_iff: "recognised_parts d = [] \<longleftrightarrow> \<not> has_recognised d"
  by (simp add: recognised_parts_def has_recognised_def section_parts_Nil_iff)

lemma format_recognised:
  "has_recognised d \<Longrightarrow> format_agent_response (PDict d) = py_join [NL, NL] (recognised_parts d)"
  using recognised_parts_Nil_iff [of d] by (simp add: format_agent_response_def Let_def)



lemma join_strs_last2: "\<exists>pre. join_strs sep (xs @ [h, x]) = pre @ h @ sep @ x"
proof (induction sep xs rule: join_strs.induct)
  case (1 sep)
  show ?case by simp
next
  case (2 sep y)
  show ?case by simp
next
  case (3 sep y z zs)
  then obtain pre where "join_strs sep ((z # zs) @ [h, x]) = pre @ h @ sep @ x" by blast
  then have "join_strs sep ((y # z # zs) @ [h, x]) = (y @ sep @ pre) @ h @ sep @ x" by simp
  then show ?case by blast
qed




text \<open>
  C3 does not hold of the program for every mapping with the key \<open>answer\<close>: the values of
  the recognised keys are appended as they are, and \<open>join\<close> raises on one that is not a
  string, where the generic branch applies \<open>str\<close> to each value. The mapping with
  \<open>thoughts\<close> 5 and \<open>answer\<close> \<open>X\<close> raises \<open>TypeError\<close>.
\<close>

theorem format_answer_type_error:
  "format_agent_response (PDict [(KStr ''thoughts'', PInt 5), (KStr ''answer'', PStr ''X'')])
   = Inl (TypeError ''sequence item 1: expected str instance, int found'')"
  by (simp add: format_agent_response_def recognised_parts_def section_parts_def
      dict_get_def py_join_def str_nat.simps digit_char_def)

text \<open>
  When the recognised keys hold strings, the result for a mapping with \<open>answer\<close> \<open>x\<close> ends
  with \<open>## Answer\<close>, a blank line and \<open>x\<close>.
\<close>

theorem format_answer_section:
  "dict_get d ''answer'' = Some (PStr x) \<Longrightarrow> recognised_str_valued d \<Longrightarrow>
   \<exists>pre. format_agent_response (PDict d) = Inr (pre @ ''## Answer'' @ [NL, NL] @ x)"
proof -
  assume a: "dict_get d ''answer'' = Some (PStr x)" and v: "recognised_str_valued d"
  from a have h: "has_recognised d" by (simp add: has_recognised_def)
  let ?xs = "section_text d ''thoughts'' ''## Thought Process''
             @ section_text d ''observations'' ''## Observations''"
  have t: "section_text d ''answer'' ''## Answer'' = [''## Answer'', x]"
    using a by (simp add: section_text_def)
  have "format_agent_response (PDict d) = py_join [NL, NL] (recognised_parts d)"
    using h by (simp add: format_recognised)
  also have "recognised_parts d = map PStr (?xs @ [''## Answer'', x])"
    using v t by (simp add: recognised_parts_str)
  finally have "format_agent_response (PDict d)
      = Inr (join_strs [NL, NL] (?xs @ [''## Answer'', x]))"
    by (simp only: py_join_strs)
  moreover obtain pre where
    "join_strs [NL, NL] (?xs @ [''## Answer'', x]) = pre @ ''## Answer'' @ [NL, NL] @ x"
    using join_strs_last2 by blast
  ultimately show ?thesis by auto
qed

theorem format_answer_section_witness:
  "format_agent_response (PDict [(KStr ''answer'', PStr ''X'')])
   = Inr (''## Answer'' @ [NL, NL] @ ''X'')"
  using format_answer_section [of "[(KStr ''answer'', PStr ''X'')]" "''X''"]
  by (simp add: format_agent_response_def recognised_parts_def section_parts_def
      dict_get_def py_join_def recognised_str_valued_def str_or_absent_def)

section \<open>Properties of the webpage fetch\<close>

subsection \<open>Stripping and the newline substitution\<close>




















subsection \<open>The fetch\<close>

lemma sublist_skip_prefix:
  "x \<notin> set p \<Longrightarrow> sublist (x # xs) (p @ m) \<longleftrightarrow> sublist (x # xs) m"
  by (induction p) (auto simp: sublist_Cons_right)

lemma handle_request: "is_request_exception e \<Longrightarrow>
    handle e = Inr (''Error fetching the webpage: '' @ message e)"
  by (cases e) simp_all

lemma handle_other: "is_exception e \<Longrightarrow> \<not> is_request_exception e \<Longrightarrow>
    handle e = Inr (''An unexpected error occurred: '' @ message e)"
  by (cases e) simp_all

lemma sublist_error_fetching: "sublist ''Error fetching the webpage'' (''Error fetching the webpage: '' @ m)"
  unfolding sublist_def by (intro exI [of _ "[]"] exI [of _ "'': '' @ m"]) simp




text \<open>
  C2. A failed fetch does not raise: whenever the body of the \<open>try\<close> block raises an
  \<open>Exception\<close>, a string is returned. When the GET raises a \<open>RequestException\<close> (the URL
  is unreachable), and when the status is an HTTP error, the string contains
  \<open>Error fetching the webpage\<close>. Whatever the status of a response, a string is
  returned when the conversion of its body returns.
\<close>

theorem visit_webpage_failure:
  "(fetch_markdown get markdownify u = Inl e \<and> is_exception e
      \<longrightarrow> (\<exists>s. visit_webpage get markdownify u = Inr s))
   \<and> (get u = Inl (RequestException m)
      \<longrightarrow> (\<exists>s. visit_webpage get markdownify u = Inr s
               \<and> sublist ''Error fetching the webpage'' s))
   \<and> (get u = Inr r \<and> 400 \<le> status_code r \<and> status_code r < 600
      \<longrightarrow> (\<exists>s. visit_webpage get markdownify u = Inr s
               \<and> sublist ''Error fetching the webpage'' s))
   \<and> (get u = Inr r \<and> markdownify (resp_text r) = Inr md
      \<longrightarrow> (\<exists>s. visit_webpage get markdownify u = Inr s))"
proof (intro conjI impI)
  assume "fetch_markdown get markdownify u = Inl e \<and> is_exception e"
  then show "\<exists>s. visit_webpage get markdownify u = Inr s"
    by (cases e) (simp_all add: visit_webpage_def)
next
  assume "get u = Inl (RequestException m)"
  then have "visit_webpage get markdownify u = Inr (''Error fetching the webpage: '' @ m)"
    by (simp add: visit_webpage_def fetch_markdown_def)
  then show "\<exists>s. visit_webpage get markdownify u = Inr s
               \<and> sublist ''Error fetching the webpage'' s"
    using sublist_error_fetching by blast
next
  assume "get u = Inr r \<and> 400 \<le> status_code r \<and> status_code r < 600"
  then have "\<exists>m. visit_webpage get markdownify u = Inr (''Error fetching the webpage: '' @ m)"
    by (simp add: visit_webpage_def fetch_markdown_def raise_for_status_def)
  then show "\<exists>s. visit_webpage get markdownify u = Inr s
               \<and> sublist ''Error fetching the webpage'' s"
    using sublist_error_fetching by blast
next
  assume "get u = Inr r \<and> markdownify (resp_text r) = Inr md"
  then show "\<exists>s. visit_webpage get markdownify u = Inr s"
    by (simp add: visit_webpage_def fetch_markdown_def raise_for_status_def)
qed

theorem visit_webpage_failure_witness:
  "visit_webpage (\<lambda>u. Inl (RequestException ''Connection refused'')) (\<lambda>html. Inr html)
     ''http://example.com''
   = Inr ''Error fetching the webpage: Connection refused''
   \<and> visit_webpage
       (\<lambda>u. Inr \<lparr>status_code = 404, reason = ''Not Found'', url = u, resp_text = ''''\<rparr>)
       (\<lambda>html. Inr html) ''http://example.com''
     = Inr ''Error fetching the webpage: 404 Client Error: Not Found for url: http://example.com''"
  using visit_webpage_failure [of "\<lambda>u. Inl (RequestException ''Connection refused'')"
      "\<lambda>html. Inr html" "''http://example.com''" "RequestException ''Connection refused''"
      "''Connection refused''"]
    visit_webpage_failure [of
      "\<lambda>u. Inr \<lparr>status_code = 404, reason = ''Not Found'', url = u, resp_text = ''''\<rparr>"
      "\<lambda>html. Inr html" "''http://example.com''" _ _
      "\<lparr>status_code = 404, reason = ''Not Found'', url = ''http://example.com'', resp_text = ''''\<rparr>"]
  by (simp add: visit_webpage_def fetch_markdown_def raise_for_status_def str_int_def
      str_nat.simps digit_char_def)

text \<open>
  C8, as the program has it. For an \<open>Exception\<close> that is not a \<open>RequestException\<close> the
  result is \<open>An unexpected error occurred: \<close> followed by the text of the exception.
  It does not begin with \<open>Error fetching the webpage\<close>, and it contains that phrase
  exactly when the text of the exception does. For a \<open>RequestException\<close> the result
  begins with \<open>Error fetching the webpage: \<close>, not with the other prefix: the two
  kinds are told apart by the prefix.
\<close>

theorem visit_webpage_error_prefix:
  "(fetch_markdown get markdownify u = Inl e \<and> is_exception e \<and> \<not> is_request_exception e
      \<longrightarrow> visit_webpage get markdownify u
            = Inr (''An unexpected error occurred: '' @ message e)
          \<and> \<not> prefix ''Error fetching the webpage''
                (''An unexpected error occurred: '' @ message e)
          \<and> (sublist ''Error fetching the webpage''
                (''An unexpected error occurred: '' @ message e)
              \<longleftrightarrow> sublist ''Error fetching the webpage'' (message e)))
   \<and> (fetch_markdown get markdownify u = Inl e \<and> is_request_exception e
      \<longrightarrow> visit_webpage get markdownify u
            = Inr (''Error fetching the webpage: '' @ message e)
          \<and> \<not> prefix ''An unexpected error occurred:''
                (''Error fetching the webpage: '' @ message e))"
proof (intro conjI impI)
  assume a: "fetch_markdown get markdownify u = Inl e \<and> is_exception e
    \<and> \<not> is_request_exception e"
  then show "visit_webpage get markdownify u
      = Inr (''An unexpected error occurred: '' @ message e)"
    by (simp add: visit_webpage_def handle_other)
  show "\<not> prefix ''Error fetching the webpage''
      (''An unexpected error occurred: '' @ message e)"
    by simp
  show "sublist ''Error fetching the webpage''
          (''An unexpected error occurred: '' @ message e)
        \<longleftrightarrow> sublist ''Error fetching the webpage'' (message e)"
    by (rule sublist_skip_prefix) simp
next
  assume a: "fetch_markdown get markdownify u = Inl e \<and> is_request_exception e"
  then show "visit_webpage get markdownify u
      = Inr (''Error fetching the webpage: '' @ message e)"
    by (simp add: visit_webpage_def handle_request)
  show "\<not> prefix ''An unexpected error occurred:''
      (''Error fetching the webpage: '' @ message e)"
    by simp
qed

theorem visit_webpage_error_prefix_witness:
  "visit_webpage
     (\<lambda>u. Inr \<lparr>status_code = 200, reason = ''OK'', url = u, resp_text = ''<p>x</p>''\<rparr>)
     (\<lambda>html. Inl (Exception ''parse failure'')) ''http://example.com''
   = Inr ''An unexpected error occurred: parse failure''
   \<and> \<not> sublist ''Error fetching the webpage'' ''An unexpected error occurred: parse failure''
   \<and> visit_webpage (\<lambda>u. Inl (RequestException ''Connection refused''))
       (\<lambda>html. Inl (Exception ''parse failure'')) ''http://example.com''
     = Inr ''Error fetching the webpage: Connection refused''"
proof -
  let ?g = "\<lambda>u. Inr \<lparr>status_code = 200, reason = ''OK'', url = u, resp_text = ''<p>x</p>''\<rparr>"
  let ?m = "\<lambda>html :: string. (Inl (Exception ''parse failure'') :: exn + string)"
  let ?h = "\<lambda>u :: string. (Inl (RequestException ''Connection refused'') :: exn + response)"
  have f1: "fetch_markdown ?g ?m ''http://example.com'' = Inl (Exception ''parse failure'')"
    by (simp add: fetch_markdown_def raise_for_status_def)
  have f2: "fetch_markdown ?h ?m ''http://example.com''
      = Inl (RequestException ''Connection refused'')"
    by (simp add: fetch_markdown_def)
  have n: "\<not> sublist ''Error fetching the webpage'' ''parse failure''"
    by (simp add: sublist_Cons_right)
  from visit_webpage_error_prefix [of ?g ?m "''http://example.com''" "Exception ''parse failure''"]
    visit_webpage_error_prefix [of ?h ?m "''http://example.com''"
      "RequestException ''Connection refused''"]
    f1 f2 n
  show ?thesis by simp
qed

text \<open>
  The phrase does occur in the result when the text of the exception holds it.
\<close>

theorem visit_webpage_error_contains_counterexample:
  "visit_webpage
     (\<lambda>u. Inr \<lparr>status_code = 200, reason = ''OK'', url = u, resp_text = ''<p>x</p>''\<rparr>)
     (\<lambda>html. Inl (Exception ''Error fetching the webpage''))
     ''http://example.com''
   = Inr ''An unexpected error occurred: Error fetching the webpage''
   \<and> sublist ''Error fetching the webpage''
        ''An unexpected error occurred: Error fetching the webpage''"
proof
  show "visit_webpage
     (\<lambda>u. Inr \<lparr>status_code = 200, reason = ''OK'', url = u, resp_text = ''<p>x</p>''\<rparr>)
     (\<lambda>html. Inl (Exception ''Error fetching the webpage''))
     ''http://example.com''
   = Inr ''An unexpected error occurred: Error fetching the webpage''"
    by (simp add: visit_webpage_def fetch_markdown_def raise_for_status_def)
  show "sublist ''Error fetching the webpage''
        ''An unexpected error occurred: Error fetching the webpage''"
    unfolding sublist_def
    by (intro exI [of _ "''An unexpected error occurred: ''"] exI [of _ "[]"]) simp
qed

section \<open>Properties of the source extraction\<close>

lemma url_char_h: "url_char (CHR ''h'')"
  by (simp add: url_char_def alt1_def is_alpha_def is_lower_def code_def)

lemma url_char_iff:
  "url_char c \<longleftrightarrow> is_lower c \<or> c = CHR ''!'' \<or> (36 \<le> code c \<and> code c \<le> 95)"
  by (auto simp: url_char_def alt1_def alt2_def alt3_def alt4_def is_alpha_def is_upper_def
      is_lower_def is_digit_def code_def)

lemma match_alt_Cons: "match_alt (c # cs) = (if url_char c then Some 1 else None)"
proof -
  have "c \<noteq> CHR ''%''" if "\<not> alt3 c"
    using that by (auto simp: alt3_def code_def)
  then show ?thesis by (auto simp: url_char_def split: list.splits)
qed

lemma match_plus_Nil: "match_plus [] = 0"
  by (simp add: match_plus.simps)

lemma match_plus_Cons: "match_plus (c # cs) = (if url_char c then Suc (match_plus cs) else 0)"
  by (subst match_plus.simps) (simp add: match_alt_Cons del: match_alt.simps)

lemma match_plus_run: "match_plus s = length (takeWhile url_char s)"
  by (induction s) (simp_all add: match_plus_Nil match_plus_Cons)

lemma run_body: "list_all url_char b \<Longrightarrow> delimited rest \<Longrightarrow> takeWhile url_char (b @ rest) = b"
  by (induction b) (auto simp: delimited_def split: list.splits)

lemma match_tail_body:
  "b \<noteq> [] \<Longrightarrow> list_all url_char b \<Longrightarrow> delimited rest \<Longrightarrow>
   match_tail (''://'' @ b @ rest) = Some (3 + length b)"
  by (cases b) (simp_all add: match_tail_def match_plus_run run_body)

lemma match_url_token:
  assumes "is_token u" and "delimited rest"
  shows "match_url (u @ rest) = Some (length u)"
proof -
  from assms(1) consider
      (http) b where "u = ''http://'' @ b" "b \<noteq> []" "list_all url_char b"
    | (https) b where "u = ''https://'' @ b" "b \<noteq> []" "list_all url_char b"
    by (auto simp: is_token_def prefix_def)
  then show ?thesis
  proof cases
    case http
    have "match_tail (''://'' @ b @ rest) = Some (3 + length b)"
      using http(2,3) assms(2) by (rule match_tail_body)
    then show ?thesis by (simp add: http(1) match_url_def)
  next
    case https
    have "match_tail (''://'' @ b @ rest) = Some (3 + length b)"
      using https(2,3) assms(2) by (rule match_tail_body)
    then show ?thesis by (simp add: https(1) match_url_def)
  qed
qed

lemma findall_unfold:
  "s \<noteq> [] \<Longrightarrow> findall s =
     (case match_url s of Some n \<Rightarrow> take n s # findall (drop n s) | None \<Rightarrow> findall (tl s))"
proof (cases s)
  case Nil
  assume "s \<noteq> []"
  with Nil show ?thesis by simp
next
  case (Cons c cs)
  then show ?thesis by (simp add: findall.simps(2) split: option.split)
qed

lemma is_token_nonempty: "is_token u \<Longrightarrow> u \<noteq> []"
  by (auto simp: is_token_def)

lemma findall_token:
  "is_token u \<Longrightarrow> delimited rest \<Longrightarrow> findall (u @ rest) = u # findall rest"
  by (simp add: findall_unfold is_token_nonempty match_url_token)

lemma no_straddle:
  "\<not> sublist ''http'' (c # cs) \<Longrightarrow> s = [] \<or> prefix ''http'' s \<Longrightarrow>
   \<not> prefix ''http'' ((c # cs) @ s)"
  by (cases cs; cases "tl cs"; cases "tl (tl cs)"; cases s)
     (auto simp: sublist_Cons_right prefix_Cons)

lemma findall_plain:
  "\<not> sublist ''http'' d \<Longrightarrow> s = [] \<or> prefix ''http'' s \<Longrightarrow> findall (d @ s) = findall s"
proof (induction d)
  case Nil
  then show ?case by simp
next
  case (Cons c cs)
  from Cons.prems have np: "\<not> prefix ''http'' ((c # cs) @ s)" by (rule no_straddle)
  have "match_url ((c # cs) @ s) = None"
    unfolding match_url_def by (simp only: np if_False)
  then have "findall ((c # cs) @ s) = findall (cs @ s)" by (simp add: findall.simps(2))
  moreover from Cons.prems(1) have "\<not> sublist ''http'' cs" by (simp add: sublist_Cons_right)
  ultimately show ?case using Cons.IH Cons.prems(2) by simp
qed

lemma is_token_http: "is_token u \<Longrightarrow> prefix ''http'' u"
  by (auto simp: is_token_def prefix_def)

text \<open>
  C7, as the program has it. Take a text \<open>d0 u1 d1 u2 d2\<close> in which \<open>u1\<close> and \<open>u2\<close> are URL
  tokens, the texts around them hold no \<open>http\<close>, \<open>d1\<close> begins with a character that is
  not a URL character and \<open>d2\<close> is empty or begins with one. The sources are then
  \<open>u1\<close> and \<open>u2\<close>, in this order: two entries, also when the two tokens are equal,
  each the matched text as it stands.
\<close>

theorem sources_two_tokens:
  assumes "is_token u1" and "is_token u2"
    and "\<not> sublist ''http'' d0" and "\<not> sublist ''http'' d1" and "\<not> sublist ''http'' d2"
    and "d1 \<noteq> []" and "delimited d1" and "delimited d2"
  shows "sources (d0 @ u1 @ d1 @ u2 @ d2) = [u1, u2]"
proof -
  have p1: "prefix ''http'' (u1 @ d1 @ u2 @ d2)"
    using is_token_http [OF assms(1)] by (auto simp: prefix_def)
  have p2: "prefix ''http'' (u2 @ d2)"
    using is_token_http [OF assms(2)] by (auto simp: prefix_def)
  have del: "delimited (d1 @ u2 @ d2)"
    using assms(6,7) by (cases d1) (simp_all add: delimited_def)
  have "findall (d0 @ u1 @ d1 @ u2 @ d2) = findall (u1 @ d1 @ u2 @ d2)"
    using assms(3) p1 by (simp add: findall_plain)
  also have "\<dots> = u1 # findall (d1 @ u2 @ d2)"
    using assms(1) del by (rule findall_token)
  also have "findall (d1 @ u2 @ d2) = findall (u2 @ d2)"
    using assms(4) p2 by (simp add: findall_plain)
  also have "\<dots> = u2 # findall d2"
    using assms(2,8) by (rule findall_token)
  also have "findall d2 = []"
    using findall_plain [of d2 "[]"] assms(5) by simp
  finally show ?thesis by (simp add: sources_def)
qed

theorem sources_two_tokens_witness:
  "sources ''See http://a.com and http://a.com for details'' = [''http://a.com'', ''http://a.com'']"
proof -
  have t: "is_token ''http://a.com''"
    by (simp add: is_token_def url_char_def alt1_def alt2_def alt3_def alt4_def is_alpha_def
        is_lower_def is_upper_def is_digit_def code_def)
  have d0: "\<not> sublist ''http'' ''See ''" by (simp add: sublist_Cons_right)
  have d1: "\<not> sublist ''http'' '' and ''" by (simp add: sublist_Cons_right)
  have d2: "\<not> sublist ''http'' '' for details''" by (simp add: sublist_Cons_right)
  have sp: "\<not> url_char (CHR '' '')"
    by (simp add: url_char_def alt1_def alt2_def alt3_def alt4_def is_alpha_def
        is_lower_def is_upper_def is_digit_def code_def)
  have e1: "delimited '' and ''" and e2: "delimited '' for details''"
    using sp by (simp_all add: delimited_def)
  from sources_two_tokens [OF t t d0 d1 d2 _ e1 e2] show ?thesis by simp
qed

text \<open>
  Two occurrences of \<open>http://\<close> need not give two sources: the comma is a URL
  character, so two addresses separated by a comma are one match.
\<close>

theorem sources_two_http_counterexample:
  "occurrences ''http://'' ''http://a.com,http://b.com'' = 2
   \<and> sources ''http://a.com,http://b.com'' = [''http://a.com,http://b.com'']"
  by code_simp

end
